theory Spec2Isabelle
  imports Main
begin

section \<open>JavaScript values\<close>

text \<open>
  The query builder of \<^verbatim>\<open>src/unnamed/part_000\<close> is a TypeScript class; at run time its
  arguments are plain JavaScript values. The part of JavaScript the builder relies on is
  modelled here:
  \<^item> primitives, and the three kinds of object the builder meets: plain objects, arrays and
    regular expressions. Every such object carries the list of its own named properties,
    in insertion order (an array and a regular expression can be given named properties
    too);
  \<^item> numbers are \<^typ>\<open>int\<close>: an integer of absolute value at most \<open>2 ^ 53\<close> is the double
    of that value. \<^verbatim>\<open>NaN\<close>, fractions, infinities and the negative zero are not
    modelled, and the arithmetic of the builder is followed only as far as it is exact
    (see \<open>js_minus\<close> and \<open>js_times\<close>);
  \<^item> objects are values: two references to one object are two equal values, and a write
    through one is not seen through the other;
  \<^item> reading a key that an object does not own finds the member of that name that every
    object inherits from \<^verbatim>\<open>Object.prototype\<close> (\<^verbatim>\<open>constructor\<close>, \<^verbatim>\<open>toString\<close>,
    \<^verbatim>\<open>__proto__\<close>, ...), when there is one. \<^verbatim>\<open>Object.prototype\<close> is taken as the language
    defines it when the builder is created. These members are objects shared by the whole
    program: a write onto one of them is recorded as the outcome of the call
    (\<open>WritesBuiltin\<close>), and the model does not follow the program further.
  Not modelled: that integer-like keys are enumerated first, and that assigning to the key
  \<^verbatim>\<open>__proto__\<close> sets the prototype of an object instead of a property (\<open>set_prop\<close> stores
  every key as an own property).
\<close>

datatype jsval =
    JUndefined
  | JNull
  | JBool bool
  | JNum int
  | JStr string
  | JRegExp string "(string \<times> jsval) list"
  | JArr "jsval list" "(string \<times> jsval) list"
  | JObj "(string \<times> jsval) list"
  | JBuiltin string

type_synonym jsobj = "(string \<times> jsval) list"

text \<open>What \<^verbatim>\<open>if (x)\<close>, \<^verbatim>\<open>!x\<close> and \<^verbatim>\<open>x || y\<close> test: every object is truthy.\<close>

fun truthy :: "jsval \<Rightarrow> bool" where
  "truthy JUndefined = False"
| "truthy JNull = False"
| "truthy (JBool b) = b"
| "truthy (JNum n) = (n \<noteq> 0)"
| "truthy (JStr s) = (s \<noteq> [])"
| "truthy (JRegExp p ps) = True"
| "truthy (JArr xs ps) = True"
| "truthy (JObj ps) = True"
| "truthy (JBuiltin name) = True"

definition js_or :: "jsval \<Rightarrow> jsval \<Rightarrow> jsval" where
  "js_or a b = (if truthy a then a else b)"

text \<open>
  The names of the members of \<^verbatim>\<open>Object.prototype\<close>, which every plain object and every
  object literal inherits (ECMAScript, with its Annex B). \<open>JBuiltin name\<close> is the value
  read under such a name: the prototype object itself for \<^verbatim>\<open>__proto__\<close>, the function
  \<^verbatim>\<open>Object\<close> for \<^verbatim>\<open>constructor\<close>, and the built-in function of that name otherwise.
\<close>

definition Object_prototype_members :: "string list" where
  "Object_prototype_members =
     [''constructor'', ''__defineGetter__'', ''__defineSetter__'', ''hasOwnProperty'',
      ''__lookupGetter__'', ''__lookupSetter__'', ''isPrototypeOf'',
      ''propertyIsEnumerable'', ''toString'', ''valueOf'', ''__proto__'',
      ''toLocaleString'']"

text \<open>
  The string that such a value becomes when it is used as a property key:
  \<^verbatim>\<open>Object.prototype\<close> prints as \<^verbatim>\<open>[object Object]\<close>, and a built-in function as its
  native source text, here as V8 (Node.js) prints it.
\<close>

definition native_text :: "string \<Rightarrow> string" where
  "native_text name =
     (if name = ''__proto__'' then ''[object Object]''
      else ''function '' @ (if name = ''constructor'' then ''Object'' else name)
             @ ''() { [native code] }'')"

text \<open>
  \<^verbatim>\<open>o[k]\<close> on a plain object: the own property; failing that, the inherited member of that
  name; failing that, \<^verbatim>\<open>undefined\<close>.
\<close>

definition get_prop :: "jsobj \<Rightarrow> string \<Rightarrow> jsval" where
  "get_prop ps k =
     (case map_of ps k of
        Some v \<Rightarrow> v
      | None \<Rightarrow> if k \<in> set Object_prototype_members then JBuiltin k else JUndefined)"

text \<open>
  \<^verbatim>\<open>o[k] = v\<close> on a plain object: an existing key keeps its place and takes the new value,
  a new key goes last.
\<close>

fun set_prop :: "jsobj \<Rightarrow> string \<Rightarrow> jsval \<Rightarrow> jsobj" where
  "set_prop [] k v = [(k, v)]"
| "set_prop (p # ps) k v = (if fst p = k then (k, v) # ps else p # set_prop ps k v)"

text \<open>
  The outcomes of a call that are not a new state of the builder:
  \<^item> \<open>TypeError k target\<close>: the call throws. The builder is a class body, hence strict-mode
    code, and creating a property on a primitive throws a \<^verbatim>\<open>TypeError\<close>
    (\<^verbatim>\<open>Cannot create property 'k' on number '5'\<close>); the error keeps the key and the
    primitive.
  \<^item> \<open>WritesBuiltin name k v\<close>: the call returns, with the filter as it was, after the
    write \<^verbatim>\<open>target[k] = v\<close> on the built-in object inherited under \<open>name\<close>
    (\<^verbatim>\<open>Object.prototype\<close> itself for \<^verbatim>\<open>__proto__\<close>). That object is shared by every object
    of the program, so what any later read finds is no longer what the model assumes.
\<close>

datatype outside =
    TypeError string jsval
  | WritesBuiltin string string jsval

text \<open>
  \<^verbatim>\<open>target[k] = v\<close> for a named key \<open>k\<close> (not an array index, not \<^verbatim>\<open>length\<close>) on any
  value.
\<close>

fun assign :: "jsval \<Rightarrow> string \<Rightarrow> jsval \<Rightarrow> outside + jsval" where
  "assign (JObj ps) k v = Inr (JObj (set_prop ps k v))"
| "assign (JArr xs ps) k v = Inr (JArr xs (set_prop ps k v))"
| "assign (JRegExp p ps) k v = Inr (JRegExp p (set_prop ps k v))"
| "assign (JBuiltin name) k v = Inl (WritesBuiltin name k v)"
| "assign target k v = Inl (TypeError k target)"

text \<open>The own named properties that a value holds in the model (none for a primitive and
  for a built-in object).\<close>

fun own :: "jsval \<Rightarrow> jsobj" where
  "own (JObj ps) = ps"
| "own (JArr xs ps) = ps"
| "own (JRegExp p ps) = ps"
| "own v = []"

section \<open>The builder's state\<close>

text \<open>\<^verbatim>\<open>ClientSession\<close> is an opaque handle of the driver.\<close>

datatype ClientSession = ClientSession nat

text \<open>
  \<^verbatim>\<open>options: FindOptions = {}\<close>: the builder only ever writes the keys \<^verbatim>\<open>limit\<close> and
  \<^verbatim>\<open>skip\<close>; \<open>None\<close> is an absent key.
\<close>

record FindOptions =
  limit :: "int option"
  skip :: "int option"

text \<open>The private fields of \<^verbatim>\<open>QueryBuilder\<close> (lines 33-41), but \<^verbatim>\<open>model\<close>, which the
  terminal operations take as a parameter.\<close>

record QueryBuilder =
  filter' :: jsobj
  options :: FindOptions
  populatedFields :: "string list"
  session :: "ClientSession option"
  sort' :: jsval
  projection :: "(string \<times> int) list"
  aggregationPipeline :: "jsval list"
  page :: int
  pageSize :: int

definition new_QueryBuilder :: QueryBuilder where
  "new_QueryBuilder =
     \<lparr> filter' = [],
       options = \<lparr> limit = None, skip = None \<rparr>,
       populatedFields = [],
       session = None,
       sort' = JObj [],
       projection = [],
       aggregationPipeline = [],
       page = 1,
       pageSize = 10 \<rparr>"

section \<open>Predicate accumulator\<close>

definition setSession :: "ClientSession \<Rightarrow> QueryBuilder \<Rightarrow> QueryBuilder" where
  "setSession s b = b\<lparr>session := Some s\<rparr>"

definition mongoOperatorMap :: "(string \<times> string) list" where
  "mongoOperatorMap =
     [(''equal'', ''$eq''),
      (''notEqual'', ''$ne''),
      (''greaterThan'', ''$gt''),
      (''greaterThanOrEqual'', ''$gte''),
      (''lessThan'', ''$lt''),
      (''lessThanOrEqual'', ''$lte''),
      (''in'', ''$in''),
      (''notIn'', ''$nin''),
      (''exists'', ''$exists''),
      (''regex'', ''$regex''),
      (''text'', ''$text'')]"

text \<open>
  Line 81, \<^verbatim>\<open>mongoOperatorMap[operator]\<close>, and the test of line 82: the property key that
  line 97 writes, or \<open>None\<close> when what is read is falsy. The table is an object literal:
  an operator that is not one of its keys but is the name of an inherited member reads
  that member, which is truthy, and line 97 then uses its string form as the key.
\<close>

definition mongoOperator_key :: "string \<Rightarrow> string option" where
  "mongoOperator_key operator =
     (case map_of mongoOperatorMap operator of
        Some mongoOperator \<Rightarrow> if truthy (JStr mongoOperator) then Some mongoOperator else None
      | None \<Rightarrow>
          if operator \<in> set Object_prototype_members
          then (if truthy (JBuiltin operator) then Some (native_text operator) else None)
          else None)"

text \<open>
  \<^verbatim>\<open>where(field, operator, value)\<close>, lines 57-101. The operator is a string at run time.
  First the field is given an empty sub-document when it reads as falsy (lines 62-64);
  then the operator is looked up, and only when what is found is truthy is a key written
  into the field's value (lines 81-98). The write of line 97 throws on a truthy primitive,
  and lands on a built-in object when the field reads an inherited member.
\<close>

definition refine :: "string \<Rightarrow> jsval \<Rightarrow> jsval" where
  "refine operator v =
     (if operator = ''in'' \<or> operator = ''notIn'' then v
      else if operator = ''regex'' then v
      else if operator = ''text'' then JObj [(''$search'', v)]
      else v)"

definition where' :: "string \<Rightarrow> string \<Rightarrow> jsval \<Rightarrow> QueryBuilder \<Rightarrow> outside + QueryBuilder" where
  "where' field operator v b =
     (let flt = (if \<not> truthy (get_prop (filter' b) field)
                 then set_prop (filter' b) field (JObj [])
                 else filter' b)
      in case mongoOperator_key operator of
           None \<Rightarrow> Inr (b\<lparr>filter' := flt\<rparr>)
         | Some mongoOperator \<Rightarrow>
             (case assign (get_prop flt field) mongoOperator (refine operator v) of
                Inl e \<Rightarrow> Inl e
              | Inr target \<Rightarrow> Inr (b\<lparr>filter' := set_prop flt field target\<rparr>)))"

definition whereId :: "jsval \<Rightarrow> QueryBuilder \<Rightarrow> QueryBuilder" where
  "whereId oid b = b\<lparr>filter' := set_prop (filter' b) ''_id'' oid\<rparr>"

definition and' :: "jsval list \<Rightarrow> QueryBuilder \<Rightarrow> QueryBuilder" where
  "and' condition b = b\<lparr>filter' := set_prop (filter' b) ''$and'' (JArr condition [])\<rparr>"

definition or' :: "jsval list \<Rightarrow> QueryBuilder \<Rightarrow> QueryBuilder" where
  "or' condition b = b\<lparr>filter' := set_prop (filter' b) ''$or'' (JArr condition [])\<rparr>"

definition not' :: "string \<Rightarrow> jsval \<Rightarrow> QueryBuilder \<Rightarrow> QueryBuilder" where
  "not' field condition b =
     b\<lparr>filter' := set_prop (filter' b) field (JObj [(''$not'', condition)])\<rparr>"

definition nor :: "jsval list \<Rightarrow> QueryBuilder \<Rightarrow> QueryBuilder" where
  "nor conditions b = b\<lparr>filter' := set_prop (filter' b) ''$nor'' (JArr conditions [])\<rparr>"

text \<open>Two calls in a row: the second runs on the builder the first returns, when the first
  has a new state of the builder for outcome.\<close>

definition and_then ::
  "outside + QueryBuilder \<Rightarrow> (QueryBuilder \<Rightarrow> outside + QueryBuilder) \<Rightarrow> outside + QueryBuilder" where
  "and_then r f = (case r of Inl e \<Rightarrow> Inl e | Inr b \<Rightarrow> f b)"

section \<open>Query options accumulator\<close>

definition limit' :: "int \<Rightarrow> QueryBuilder \<Rightarrow> QueryBuilder" where
  "limit' n b = b\<lparr>options := (options b)\<lparr>limit := Some n\<rparr>\<rparr>"

definition skip' :: "int \<Rightarrow> QueryBuilder \<Rightarrow> QueryBuilder" where
  "skip' n b = b\<lparr>options := (options b)\<lparr>skip := Some n\<rparr>\<rparr>"

definition populate :: "string list \<Rightarrow> QueryBuilder \<Rightarrow> QueryBuilder" where
  "populate fs b = b\<lparr>populatedFields := populatedFields b @ fs\<rparr>"

definition sortBy :: "jsval \<Rightarrow> QueryBuilder \<Rightarrow> QueryBuilder" where
  "sortBy s b = b\<lparr>sort' := s\<rparr>"

definition select :: "(string \<times> int) list \<Rightarrow> QueryBuilder \<Rightarrow> QueryBuilder" where
  "select p b = b\<lparr>projection := p\<rparr>"

definition aggregate :: "jsval \<Rightarrow> QueryBuilder \<Rightarrow> QueryBuilder" where
  "aggregate stage b = b\<lparr>aggregationPipeline := aggregationPipeline b @ [stage]\<rparr>"

text \<open>
  The arithmetic of line 162 is the arithmetic of doubles. An integer of absolute value at
  most \<open>2 ^ 53\<close> is a double, and a difference or a product of two such integers that is
  again in that range is computed exactly. Outside the range a double rounds, and a product
  that is zero with a negative factor is the negative zero: the model does not follow these
  cases and answers \<open>None\<close>.
\<close>

definition js_exact :: "int \<Rightarrow> bool" where
  "js_exact n = (\<bar>n\<bar> \<le> 2 ^ 53)"

definition js_minus :: "int \<Rightarrow> int \<Rightarrow> int option" where
  "js_minus a b = (if js_exact a \<and> js_exact b \<and> js_exact (a - b) then Some (a - b) else None)"

definition js_times :: "int \<Rightarrow> int \<Rightarrow> int option" where
  "js_times a b =
     (if js_exact a \<and> js_exact b \<and> js_exact (a * b) \<and> \<not> (a * b = 0 \<and> (a < 0 \<or> b < 0))
      then Some (a * b) else None)"

text \<open>\<^verbatim>\<open>paginate(page, pageSize)\<close>, lines 159-165; \<open>None\<close> where the arithmetic of line 162
  is not followed.\<close>

definition paginate :: "int \<Rightarrow> int \<Rightarrow> QueryBuilder \<Rightarrow> QueryBuilder option" where
  "paginate p ps b =
     (case js_minus p 1 of
        None \<Rightarrow> None
      | Some d \<Rightarrow>
          (case js_times d ps of
             None \<Rightarrow> None
           | Some sk \<Rightarrow>
               Some (b\<lparr>page := p, pageSize := ps,
                        options := (options b)\<lparr>skip := Some sk, limit := Some ps\<rparr>\<rparr>)))"

section \<open>Execution dispatcher\<close>

subsection \<open>Errors\<close>

text \<open>
  Modelled from the spec: \<^verbatim>\<open>MongridError\<close> and \<^verbatim>\<open>ERROR_CODES\<close> are imported from
  \<^verbatim>\<open>../error/MongridError\<close>, which is not among the sources. Section 7 of the
  specification gives one error kind per terminal operation, each carrying diagnostic
  context; the source builds it as \<^verbatim>\<open>new MongridError(message, code, details)\<close>. The
  model keeps the three arguments as they are passed; \<open>details\<close> is the object literal
  of the call, one entry per key.
\<close>

datatype ERROR_CODES = COUNT_ERROR | EXPLAIN_ERROR | QUERY_EXECUTION_ERROR

datatype detail =
    D_filter jsobj
  | D_options FindOptions
  | D_populatedFields "string list"

text \<open>
  What can be thrown or be the reason of a rejection: an error object of the driver or
  of the run time, with its message, or a \<^verbatim>\<open>MongridError\<close>.
\<close>

datatype js_error =
    Error string
  | MongridError string ERROR_CODES "detail list"

fun message :: "js_error \<Rightarrow> string" where
  "message (Error msg) = msg"
| "message (MongridError msg code details) = msg"

subsection \<open>Calls and promises\<close>

text \<open>
  A call either throws while it runs or returns a value; a promise is fulfilled, rejected,
  or never settles.
\<close>

datatype 'a completion = Returns 'a | Throws js_error

datatype 'a promise = Fulfilled 'a | Rejected js_error | Pending

text \<open>\<^verbatim>\<open>f().g()\<close>: the second call runs on what the first returns, unless the first throws.\<close>

definition chain :: "'a completion \<Rightarrow> ('a \<Rightarrow> 'b completion) \<Rightarrow> 'b completion" where
  "chain c f = (case c of Throws e \<Rightarrow> Throws e | Returns x \<Rightarrow> f x)"

text \<open>
  \<^verbatim>\<open>async f() { try { return e; } catch (error) { throw h(error); } }\<close> where \<open>e\<close> is a
  call that returns a promise. There is no \<^verbatim>\<open>await\<close>: the \<^verbatim>\<open>catch\<close> clause runs only when
  evaluating \<open>e\<close> throws. When \<open>e\<close> returns a promise, the \<^verbatim>\<open>try\<close> block is left at once
  and the promise of \<open>f\<close> takes the outcome of the returned promise, a rejection included.
\<close>

definition try_return :: "'a promise completion \<Rightarrow> (js_error \<Rightarrow> js_error) \<Rightarrow> 'a promise" where
  "try_return e h = (case e of Throws error \<Rightarrow> Rejected (h error) | Returns p \<Rightarrow> p)"

text \<open>
  \<^verbatim>\<open>async f() { try { const x = await p; return k(x); } catch (error) { throw h(error); } }\<close>:
  the \<^verbatim>\<open>await\<close> inside the \<^verbatim>\<open>try\<close> block turns a rejection of \<open>p\<close> into a throw that the
  \<^verbatim>\<open>catch\<close> clause receives, as it receives a throw of \<open>k\<close>.
\<close>

definition try_await ::
  "'a promise \<Rightarrow> ('a \<Rightarrow> 'b completion) \<Rightarrow> (js_error \<Rightarrow> js_error) \<Rightarrow> 'b promise" where
  "try_await p k h =
     (case p of
        Pending \<Rightarrow> Pending
      | Rejected error \<Rightarrow> Rejected (h error)
      | Fulfilled x \<Rightarrow> (case k x of Throws error \<Rightarrow> Rejected (h error) | Returns y \<Rightarrow> Fulfilled y))"

subsection \<open>The external collaborator\<close>

text \<open>
  Modelled from the spec: the class \<^verbatim>\<open>Model\<close> (\<^verbatim>\<open>./model\<close>) and the driver's collection are
  not among the sources. Section 6 of the specification gives their contract:
  \<^verbatim>\<open>getCollection()\<close> returns the collection handle, \<^verbatim>\<open>find(filter, options,
  populatedFields)\<close> returns the documents, and the collection offers count, explain and
  aggregation under an optional session. Their behaviour is a parameter of every terminal
  operation: each call may throw, or return a promise with any outcome.

  \<open>CallOptions\<close> is the options object a call receives: \<open>None\<close> is an absent key, and
  \<open>co_session\<close> is the value of the key \<^verbatim>\<open>session\<close> (\<open>None\<close> for \<^verbatim>\<open>null\<close>).
\<close>

type_synonym document = jsobj

record CallOptions =
  co_limit :: "int option"
  co_skip :: "int option"
  co_sort :: "jsval option"
  co_projection :: "(string \<times> int) list option"
  co_session :: "ClientSession option"

record Collection =
  countDocuments :: "jsobj \<Rightarrow> ClientSession option \<Rightarrow> int promise completion"
  find_explain :: "jsobj \<Rightarrow> CallOptions \<Rightarrow> string \<Rightarrow> jsval promise completion"
  aggregate_toArray :: "jsval list \<Rightarrow> ClientSession option \<Rightarrow> document list promise completion"

record Model =
  getCollection :: "Collection completion"
  find' :: "jsobj \<Rightarrow> CallOptions \<Rightarrow> string list \<Rightarrow> document list promise completion"

subsection \<open>Terminal operations\<close>

text \<open>\<^verbatim>\<open>count()\<close>, lines 167-177.\<close>

definition count :: "Model \<Rightarrow> QueryBuilder \<Rightarrow> int promise" where
  "count m b =
     try_return
       (chain (getCollection m) (\<lambda>c. countDocuments c (filter' b) (session b)))
       (\<lambda>error. MongridError (''Count failed: '' @ message error) COUNT_ERROR
                  [D_filter (filter' b)])"

text \<open>\<^verbatim>\<open>explain(verbosity)\<close>, lines 185-195; the caller passes \<^verbatim>\<open>"queryPlanner"\<close> for the
  default.\<close>

definition explain :: "Model \<Rightarrow> string \<Rightarrow> QueryBuilder \<Rightarrow> jsval promise" where
  "explain m verbosity b =
     try_return
       (chain (getCollection m) (\<lambda>c.
          find_explain c (filter' b)
            \<lparr> co_limit = limit (options b), co_skip = skip (options b),
              co_sort = None, co_projection = None, co_session = session b \<rparr>
            verbosity))
       (\<lambda>error. MongridError (''Explain failed: '' @ message error) EXPLAIN_ERROR
                  [D_filter (filter' b), D_options (options b)])"

text \<open>\<^verbatim>\<open>execute()\<close>, lines 197-215.\<close>

definition execute :: "Model \<Rightarrow> QueryBuilder \<Rightarrow> document list promise" where
  "execute m b =
     try_return
       (if length (aggregationPipeline b) > 0
        then chain (getCollection m) (\<lambda>c.
               aggregate_toArray c (aggregationPipeline b) (session b))
        else find' m (filter' b)
               \<lparr> co_limit = limit (options b), co_skip = skip (options b),
                 co_sort = Some (sort' b), co_projection = Some (projection b),
                 co_session = session b \<rparr>
               (populatedFields b))
       (\<lambda>error. MongridError (''Query execution failed: '' @ message error)
                  QUERY_EXECUTION_ERROR
                  [D_filter (filter' b), D_options (options b),
                   D_populatedFields (populatedFields b)])"

text \<open>
  \<^verbatim>\<open>executeOne()\<close>, lines 217-229. \<^verbatim>\<open>results[0]\<close> is \<^verbatim>\<open>undefined\<close> on an empty array;
  a document is an object.
\<close>

definition index0 :: "document list \<Rightarrow> jsval" where
  "index0 results = (case results of [] \<Rightarrow> JUndefined | d # ds \<Rightarrow> JObj d)"

definition executeOne :: "Model \<Rightarrow> QueryBuilder \<Rightarrow> jsval promise" where
  "executeOne m b =
     try_await (execute m b)
       (\<lambda>results. Returns (js_or (index0 results) JNull))
       (\<lambda>error. MongridError (''Query execution failed: '' @ message error)
                  QUERY_EXECUTION_ERROR
                  [D_filter (filter' b), D_options (options b)])"

section \<open>Predicates and collaborators used in the statements\<close>

text \<open>An object that holds its own properties: a plain object, an array or a regular
  expression, as opposed to a primitive and to a built-in object.\<close>

fun is_own_object :: "jsval \<Rightarrow> bool" where
  "is_own_object (JObj ps) = True"
| "is_own_object (JArr xs ps) = True"
| "is_own_object (JRegExp p ps) = True"
| "is_own_object v = False"

text \<open>
  What a field reads as when \<^verbatim>\<open>where\<close> can write an operator into the filter under it: a
  falsy value (an absent key that is not the name of an inherited member reads as
  \<^verbatim>\<open>undefined\<close>), which lines 62-64 replace by a fresh sub-document, or an object that
  holds its own properties. What is left out is a truthy primitive, which the typed
  interface of the builder never stores in the filter, and an inherited member.
\<close>

definition takes_operators :: "jsval \<Rightarrow> bool" where
  "takes_operators x = (\<not> truthy x \<or> is_own_object x)"

text \<open>Every value stored in a filter is an object that holds its own properties.\<close>

definition holds_objects :: "jsobj \<Rightarrow> bool" where
  "holds_objects flt = list_all (\<lambda>p. is_own_object (snd p)) flt"

text \<open>
  The builders that the public methods produce from a new one, as far as the model
  follows them, when \<^verbatim>\<open>whereId\<close> is given an object, as its type \<^verbatim>\<open>ObjectId\<close> says.
\<close>

inductive reachable :: "QueryBuilder \<Rightarrow> bool" where
  r_new: "reachable new_QueryBuilder"
| r_setSession: "reachable b \<Longrightarrow> reachable (setSession s b)"
| r_where: "reachable b \<Longrightarrow> where' field operator v b = Inr b' \<Longrightarrow> reachable b'"
| r_whereId: "reachable b \<Longrightarrow> is_own_object oid \<Longrightarrow> reachable (whereId oid b)"
| r_and: "reachable b \<Longrightarrow> reachable (and' condition b)"
| r_or: "reachable b \<Longrightarrow> reachable (or' condition b)"
| r_not: "reachable b \<Longrightarrow> reachable (not' field c b)"
| r_nor: "reachable b \<Longrightarrow> reachable (nor conditions b)"
| r_limit: "reachable b \<Longrightarrow> reachable (limit' n b)"
| r_skip: "reachable b \<Longrightarrow> reachable (skip' n b)"
| r_populate: "reachable b \<Longrightarrow> reachable (populate fs b)"
| r_sortBy: "reachable b \<Longrightarrow> reachable (sortBy srt b)"
| r_select: "reachable b \<Longrightarrow> reachable (select prj b)"
| r_aggregate: "reachable b \<Longrightarrow> reachable (aggregate stage b)"
| r_paginate: "reachable b \<Longrightarrow> paginate p ps b = Some b' \<Longrightarrow> reachable b'"

text \<open>Collaborators with a fixed answer to every call.\<close>

definition stub_collection ::
  "int promise \<Rightarrow> jsval promise \<Rightarrow> document list promise \<Rightarrow> Collection" where
  "stub_collection n plan docs =
     \<lparr> countDocuments = (\<lambda>flt s. Returns n),
       find_explain = (\<lambda>flt opts verbosity. Returns plan),
       aggregate_toArray = (\<lambda>pipeline s. Returns docs) \<rparr>"

definition stub_model :: "Collection \<Rightarrow> document list promise \<Rightarrow> Model" where
  "stub_model c docs = \<lparr> getCollection = Returns c, find' = (\<lambda>flt opts fs. Returns docs) \<rparr>"

text \<open>Every operation of the driver returns a promise that is rejected with \<open>e\<close>.\<close>

definition failing_model :: "js_error \<Rightarrow> Model" where
  "failing_model e =
     stub_model (stub_collection (Rejected e) (Rejected e) (Rejected e)) (Rejected e)"

text \<open>
  A collaborator that answers with what it was asked: the aggregation returns one document
  per stage, in the order of the pipeline it received, and \<^verbatim>\<open>find\<close> returns the filter.
\<close>

definition echo_collection :: Collection where
  "echo_collection =
     \<lparr> countDocuments = (\<lambda>flt s. Returns (Fulfilled (int (length flt)))),
       find_explain = (\<lambda>flt opts verbosity. Returns (Fulfilled (JObj flt))),
       aggregate_toArray = (\<lambda>pipeline s.
         Returns (Fulfilled (map (\<lambda>stage. [(''stage'', stage)]) pipeline))) \<rparr>"

definition echo_model :: Model where
  "echo_model =
     \<lparr> getCollection = Returns echo_collection,
       find' = (\<lambda>flt opts fs. Returns (Fulfilled [flt])) \<rparr>"

section \<open>Properties of objects and of the operator table\<close>

lemma map_of_set_prop: "map_of (set_prop ps k v) = (map_of ps)(k \<mapsto> v)"
  by (induction ps) (auto simp: fun_eq_iff)

lemma get_prop_set_prop_same: "get_prop (set_prop ps k v) k = v"
  by (simp add: get_prop_def map_of_set_prop)

lemma get_prop_set_prop_other: "k' \<noteq> k \<Longrightarrow> get_prop (set_prop ps k v) k' = get_prop ps k'"
  by (simp add: get_prop_def map_of_set_prop)

lemma set_prop_twice: "set_prop (set_prop ps k v) k v' = set_prop ps k v'"
  by (induction ps) auto

lemma filter_update_inject: "b\<lparr>filter' := x\<rparr> = b\<lparr>filter' := y\<rparr> \<Longrightarrow> x = y"
  by (drule arg_cong[where f = filter']) simp

lemma is_own_object_truthy: "is_own_object x \<Longrightarrow> truthy x"
  by (cases x) auto

lemma assign_object:
  "is_own_object x \<Longrightarrow>
   \<exists>y. assign x k v = Inr y \<and> own y = set_prop (own x) k v \<and> is_own_object y"
  by (cases x) auto

lemma assign_not_object: "\<not> is_own_object x \<Longrightarrow> \<exists>e. assign x k v = Inl e"
  by (cases x) auto

lemma assign_Inr_object: "assign x k v = Inr y \<Longrightarrow> is_own_object y"
  by (cases x) auto

lemma assign_twice: "assign x k v = Inr y \<Longrightarrow> assign y k v' = assign x k v'"
  by (cases x) (auto simp: set_prop_twice)

lemma assign_truthy: "assign x k v = Inr y \<Longrightarrow> truthy y"
  by (cases x) auto



lemma tokens_nonempty: "[] \<notin> set (map snd mongoOperatorMap)"
  unfolding mongoOperatorMap_def by simp

lemma mongoOperatorMap_truthy:
  assumes "map_of mongoOperatorMap operator = Some token"
  shows "token \<noteq> []"
proof -
  from assms have "(operator, token) \<in> set mongoOperatorMap" by (rule map_of_SomeD)
  then have "token \<in> set (map snd mongoOperatorMap)" by force
  with tokens_nonempty show ?thesis by metis
qed




lemma mongoOperator_key_token:
  "map_of mongoOperatorMap operator = Some token \<Longrightarrow> mongoOperator_key operator = Some token"
  using mongoOperatorMap_truthy[of operator token] by (simp add: mongoOperator_key_def)

lemma mongoOperator_key_unknown:
  "map_of mongoOperatorMap operator = None \<Longrightarrow> operator \<notin> set Object_prototype_members \<Longrightarrow>
   mongoOperator_key operator = None"
  by (simp add: mongoOperator_key_def)

lemma refine_shape:
  "refine operator v = (if operator = ''text'' then JObj [(''$search'', v)] else v)"
  by (simp add: refine_def)

section \<open>The cases of \<^verbatim>\<open>where\<close>\<close>

text \<open>An operator for which line 81 reads a falsy value: no throw, and the field is created
  when it was falsy.\<close>

lemma where_unknown_operator:
  assumes "mongoOperator_key operator = None"
  shows "where' field operator v b =
         Inr (b\<lparr>filter' := (if truthy (get_prop (filter' b) field) then filter' b
                              else set_prop (filter' b) field (JObj []))\<rparr>)"
  using assms by (simp add: where'_def Let_def)

text \<open>An operator of the table on a falsy field: a fresh one-key sub-document.\<close>

lemma where_fresh:
  assumes "map_of mongoOperatorMap operator = Some token"
    and "\<not> truthy (get_prop (filter' b) field)"
  shows "where' field operator v b =
         Inr (b\<lparr>filter' := set_prop (filter' b) field (JObj [(token, refine operator v)])\<rparr>)"
  using assms(2) mongoOperator_key_token[OF assms(1)]
  by (simp add: where'_def Let_def get_prop_set_prop_same set_prop_twice)

text \<open>An operator of the table on a truthy field: the write of line 97 on that value.\<close>

lemma where_supported:
  assumes "map_of mongoOperatorMap operator = Some token"
    and "truthy (get_prop (filter' b) field)"
  shows "where' field operator v b =
         (case assign (get_prop (filter' b) field) token (refine operator v) of
            Inl e \<Rightarrow> Inl e
          | Inr target \<Rightarrow> Inr (b\<lparr>filter' := set_prop (filter' b) field target\<rparr>))"
  using assms(2) mongoOperator_key_token[OF assms(1)]
  by (simp add: where'_def Let_def)

text \<open>
  An operator of the table on a field that the filter does not own and whose name is the
  name of an inherited member: the filter stays as it is, and the token is written onto
  the built-in object.
\<close>

lemma where_inherited_field:
  assumes "map_of mongoOperatorMap operator = Some token"
    and "map_of (filter' b) field = None"
    and "field \<in> set Object_prototype_members"
  shows "where' field operator v b = Inl (WritesBuiltin field token (refine operator v))"
proof -
  have g: "get_prop (filter' b) field = JBuiltin field"
    using assms(2,3) by (simp add: get_prop_def)
  then have "truthy (get_prop (filter' b) field)" by simp
  from where_supported[OF assms(1) this, of v] g show ?thesis by simp
qed

lemma where_on_object:
  assumes tok: "map_of mongoOperatorMap operator = Some token"
    and obj: "is_own_object (get_prop (filter' b) field)"
  shows "\<exists>y. where' field operator v b = Inr (b\<lparr>filter' := set_prop (filter' b) field y\<rparr>)
             \<and> assign (get_prop (filter' b) field) token (refine operator v) = Inr y
             \<and> own y = set_prop (own (get_prop (filter' b) field)) token (refine operator v)
             \<and> is_own_object y"
proof -
  obtain y where y: "assign (get_prop (filter' b) field) token (refine operator v) = Inr y"
      "own y = set_prop (own (get_prop (filter' b) field)) token (refine operator v)"
      "is_own_object y"
    using assign_object[OF obj] by blast
  have "where' field operator v b = Inr (b\<lparr>filter' := set_prop (filter' b) field y\<rparr>)"
    using where_supported[OF tok is_own_object_truthy[OF obj], of v] y(1) by simp
  with y show ?thesis by blast
qed

lemma where_returns:
  assumes tok: "map_of mongoOperatorMap operator = Some token"
    and ok: "takes_operators (get_prop (filter' b) field)"
  shows "\<exists>y. where' field operator v b = Inr (b\<lparr>filter' := set_prop (filter' b) field y\<rparr>)
             \<and> map_of (own y) =
                 (map_of (own (get_prop (filter' b) field)))(token \<mapsto> refine operator v)
             \<and> is_own_object y
             \<and> (\<not> truthy (get_prop (filter' b) field) \<longrightarrow> y = JObj [(token, refine operator v)])"
proof (cases "truthy (get_prop (filter' b) field)")
  case True
  with ok have obj: "is_own_object (get_prop (filter' b) field)"
    by (simp add: takes_operators_def)
  from where_on_object[OF tok obj, of v] True show ?thesis
    by (auto simp: map_of_set_prop)
next
  case False
  then have "own (get_prop (filter' b) field) = []"
    by (cases "get_prop (filter' b) field") auto
  with where_fresh[OF tok False, of v] show ?thesis
    using False by auto
qed

text \<open>With an operator of the table, \<^verbatim>\<open>where\<close> has a new state of the builder for outcome
  exactly when the field can take operators.\<close>

lemma where_returns_iff:
  assumes tok: "map_of mongoOperatorMap operator = Some token"
  shows "(\<exists>b'. where' field operator v b = Inr b') \<longleftrightarrow>
         takes_operators (get_prop (filter' b) field)"
proof (cases "takes_operators (get_prop (filter' b) field)")
  case True
  from where_returns[OF tok True, of v] True show ?thesis by auto
next
  case False
  then have t: "truthy (get_prop (filter' b) field)"
    and p: "\<not> is_own_object (get_prop (filter' b) field)"
    by (simp_all add: takes_operators_def)
  from assign_not_object[OF p, of token "refine operator v"]
  obtain e where "assign (get_prop (filter' b) field) token (refine operator v) = Inl e"
    by blast
  with where_supported[OF tok t, of v] False show ?thesis by simp
qed

section \<open>The filter of a reachable builder\<close>

text \<open>
  No method of the builder stores a primitive in the filter, so on a reachable builder
  every field whose name is not the name of an inherited member can take operators, and
  \<^verbatim>\<open>where\<close> on it with an operator of the table returns a new state.
\<close>

lemma holds_objects_set_prop:
  "holds_objects flt \<Longrightarrow> is_own_object x \<Longrightarrow> holds_objects (set_prop flt k x)"
  unfolding holds_objects_def by (induction flt) auto

lemma holds_objects_map_of:
  "holds_objects flt \<Longrightarrow> map_of flt k = Some x \<Longrightarrow> is_own_object x"
  unfolding holds_objects_def by (induction flt) (auto split: if_splits)

lemma holds_objects_get_prop:
  assumes "holds_objects flt" and "k \<notin> set Object_prototype_members"
  shows "takes_operators (get_prop flt k)"
proof (cases "map_of flt k")
  case None
  with assms(2) show ?thesis by (simp add: get_prop_def takes_operators_def)
next
  case (Some x)
  with holds_objects_map_of[OF assms(1) Some] show ?thesis
    by (simp add: get_prop_def takes_operators_def)
qed

lemma where_holds_objects:
  assumes "where' field operator v b = Inr b'" and "holds_objects (filter' b)"
  shows "holds_objects (filter' b')"
proof -
  let ?flt = "if \<not> truthy (get_prop (filter' b) field)
              then set_prop (filter' b) field (JObj []) else filter' b"
  have flt: "holds_objects ?flt"
    using assms(2) by (simp add: holds_objects_set_prop)
  show ?thesis
  proof (cases "mongoOperator_key operator")
    case None
    with assms(1) flt show ?thesis
      by (auto simp: where'_def Let_def split: if_splits)
  next
    case (Some key)
    with assms(1) obtain target where
        t: "assign (get_prop ?flt field) key (refine operator v) = Inr target"
        and b': "b' = b\<lparr>filter' := set_prop ?flt field target\<rparr>"
      by (auto simp: where'_def Let_def split: sum.splits)
    from assign_Inr_object[OF t] flt show ?thesis
      by (simp add: b' holds_objects_set_prop)
  qed
qed

lemma paginate_filter: "paginate p ps b = Some b' \<Longrightarrow> filter' b' = filter' b"
  by (auto simp: paginate_def split: option.splits)

lemma reachable_holds_objects: "reachable b \<Longrightarrow> holds_objects (filter' b)"
proof (induction rule: reachable.induct)
  case r_new
  show ?case by (simp add: new_QueryBuilder_def holds_objects_def)
next
  case (r_where b field operator v b')
  then show ?case using where_holds_objects by blast
next
  case (r_paginate b p ps b')
  then show ?case by (simp add: paginate_filter)
qed (simp_all add: setSession_def whereId_def and'_def or'_def not'_def nor_def limit'_def
       skip'_def populate_def sortBy_def select_def aggregate_def holds_objects_set_prop)

lemma reachable_takes_operators:
  "reachable b \<Longrightarrow> f \<notin> set Object_prototype_members \<Longrightarrow>
   takes_operators (get_prop (filter' b) f)"
  by (rule holds_objects_get_prop[OF reachable_holds_objects])

section \<open>Properties of the dispatcher\<close>

lemma aggregationPipeline_fold:
  "aggregationPipeline (fold aggregate stages b) = aggregationPipeline b @ stages"
  by (induction stages arbitrary: b) (simp_all add: aggregate_def)

lemma session_fold: "session (fold aggregate stages b) = session b"
  by (induction stages arbitrary: b) (simp_all add: aggregate_def)

text \<open>What the \<^verbatim>\<open>catch\<close> clauses do reach: a call of the collaborator that throws while it
  runs is wrapped.\<close>

lemma count_throw_wrapped:
  "getCollection m = Throws e \<Longrightarrow>
   count m b = Rejected (MongridError (''Count failed: '' @ message e) COUNT_ERROR
                           [D_filter (filter' b)])"
  by (simp add: count_def try_return_def chain_def)

lemma execute_throw_wrapped:
  "aggregationPipeline b = [] \<Longrightarrow> find' m (filter' b)
       \<lparr> co_limit = limit (options b), co_skip = skip (options b),
         co_sort = Some (sort' b), co_projection = Some (projection b),
         co_session = session b \<rparr> (populatedFields b) = Throws e \<Longrightarrow>
   execute m b = Rejected (MongridError (''Query execution failed: '' @ message e)
                             QUERY_EXECUTION_ERROR
                             [D_filter (filter' b), D_options (options b),
                              D_populatedFields (populatedFields b)])"
  by (simp add: execute_def try_return_def)

text \<open>Every rejection of \<^verbatim>\<open>executeOne\<close> is a \<^verbatim>\<open>MongridError\<close> of the query-execution kind,
  with the filter and the options for details.\<close>

lemma executeOne_rejected:
  "executeOne m b = Rejected err \<Longrightarrow>
     \<exists>msg. err = MongridError msg QUERY_EXECUTION_ERROR
                   [D_filter (filter' b), D_options (options b)]"
  by (auto simp: executeOne_def try_await_def split: promise.splits completion.splits)

section \<open>Claims about the predicate accumulator\<close>





text \<open>
  C3. An operator that is not in the table does not make \<^verbatim>\<open>where\<close> throw, but the call is
  not without effect on the filter. On a new builder \<^verbatim>\<open>where("age", "bogus", 5)\<close> returns
  a builder whose filter is \<^verbatim>\<open>{ age: {} }\<close>, not the empty filter it started from: lines
  62-64 give the field its sub-document before line 81 looks the operator up, so the test
  of line 82 comes too late. And an operator named after a member inherited from
  \<^verbatim>\<open>Object.prototype\<close>, \<^verbatim>\<open>toString\<close> for instance, is not in the table and yet passes the
  test of line 82: on a field constrained to \<^verbatim>\<open>{ $gt: 18 }\<close>, line 97 adds a key to that
  constraint.
\<close>

theorem where_unknown_operator_changes_filter:
  "map_of mongoOperatorMap ''bogus'' = None
   \<and> filter' new_QueryBuilder = []
   \<and> where' ''age'' ''bogus'' (JNum 5) new_QueryBuilder =
       Inr (new_QueryBuilder\<lparr>filter' := [(''age'', JObj [])]\<rparr>)
   \<and> where' ''age'' ''bogus'' (JNum 5) new_QueryBuilder \<noteq> Inr new_QueryBuilder
   \<and> map_of mongoOperatorMap ''toString'' = None
   \<and> where' ''age'' ''toString'' (JNum 5)
        (new_QueryBuilder\<lparr>filter' := [(''age'', JObj [(''$gt'', JNum 18)])]\<rparr>) =
       Inr (new_QueryBuilder\<lparr>filter' :=
              [(''age'', JObj [(''$gt'', JNum 18),
                               (''function toString() { [native code] }'', JNum 5)])]\<rparr>)"
  by (simp add: where'_def new_QueryBuilder_def mongoOperatorMap_def mongoOperator_key_def
        Object_prototype_members_def native_text_def get_prop_def refine_def)

text \<open>
  C9. When a field \<open>f\<close> holds a constraint written by \<^verbatim>\<open>where\<close> (the token of the
  operator, with its value), \<^verbatim>\<open>not(f, c)\<close> leaves \<open>f\<close> with the value \<^verbatim>\<open>{ $not: c }\<close> and
  nothing else: the token written by \<^verbatim>\<open>where\<close> is gone, and no other part of the builder
  changes.
\<close>

theorem not_overwrites_where:
  assumes "where' f operator v b0 = Inr b"
    and "map_of mongoOperatorMap operator = Some token"
  shows "map_of (own (get_prop (filter' b) f)) token =
           Some (if operator = ''text'' then JObj [(''$search'', v)] else v)
         \<and> get_prop (filter' (not' f c b)) f = JObj [(''$not'', c)]
         \<and> map_of (own (get_prop (filter' (not' f c b)) f)) token = None
         \<and> not' f c b = b\<lparr>filter' := set_prop (filter' b) f (JObj [(''$not'', c)])\<rparr>"
proof -
  have tok: "token \<noteq> ''$not''"
    using assms(2) by (auto simp: mongoOperatorMap_def split: if_splits)
  have "map_of (own (get_prop (filter' b) f)) token = Some (refine operator v)"
  proof (cases "truthy (get_prop (filter' b0) f)")
    case False
    from where_fresh[OF assms(2) False, of v] assms(1) show ?thesis
      by (auto simp: get_prop_set_prop_same)
  next
    case True
    from where_supported[OF assms(2) True, of v] assms(1)
    obtain y where y: "assign (get_prop (filter' b0) f) token (refine operator v) = Inr y"
        "b = b0\<lparr>filter' := set_prop (filter' b0) f y\<rparr>"
      by (auto split: sum.splits)
    have "map_of (own y) token = Some (refine operator v)"
      using y(1) by (cases "get_prop (filter' b0) f") (auto simp: map_of_set_prop)
    then show ?thesis by (simp add: y(2) get_prop_set_prop_same)
  qed
  then show ?thesis
    using tok by (simp add: not'_def get_prop_set_prop_same refine_shape)
qed

theorem not_overwrites_where_witness:
  "where' ''age'' ''greaterThan'' (JNum 18) new_QueryBuilder =
     Inr (new_QueryBuilder\<lparr>filter' := [(''age'', JObj [(''$gt'', JNum 18)])]\<rparr>)
   \<and> map_of mongoOperatorMap ''greaterThan'' = Some ''$gt''
   \<and> filter' (not' ''age'' (JObj [(''$lt'', JNum 5)])
        (new_QueryBuilder\<lparr>filter' := [(''age'', JObj [(''$gt'', JNum 18)])]\<rparr>)) =
       [(''age'', JObj [(''$not'', JObj [(''$lt'', JNum 5)])])]"
proof -
  have w: "where' ''age'' ''greaterThan'' (JNum 18) new_QueryBuilder =
     Inr (new_QueryBuilder\<lparr>filter' := [(''age'', JObj [(''$gt'', JNum 18)])]\<rparr>)"
    by (simp add: where'_def new_QueryBuilder_def mongoOperatorMap_def mongoOperator_key_def
          Object_prototype_members_def get_prop_def refine_def)
  have t: "map_of mongoOperatorMap ''greaterThan'' = Some ''$gt''"
    by (simp add: mongoOperatorMap_def)
  from not_overwrites_where[OF w t, of "JObj [(''$lt'', JNum 5)]"] w t
  show ?thesis by simp
qed

text \<open>
  C10. For every field \<open>f\<close> that can take operators, every operator of the table, with
  token \<open>t\<close>, and every two values, \<^verbatim>\<open>where(f, op, v1)\<close> followed by \<^verbatim>\<open>where(f, op, v2)\<close>
  returns the builder that \<^verbatim>\<open>where(f, op, v2)\<close> alone returns on the starting state. In
  that builder the value of \<open>f\<close> holds \<open>t\<close> with the second value (shaped as the operator
  asks), every other key of the value of \<open>f\<close> is as it was at the start, every other
  field of the filter reads as it did, and nothing but the filter has changed: the second
  value of an operator replaces the first, and only that.
\<close>

theorem where_same_operator_last_wins:
  assumes "map_of mongoOperatorMap operator = Some token"
    and "takes_operators (get_prop (filter' b) f)"
  shows "\<exists>b1 b2. where' f operator v1 b = Inr b1 \<and> where' f operator v2 b1 = Inr b2
           \<and> where' f operator v2 b = Inr b2
           \<and> map_of (own (get_prop (filter' b2) f)) token =
               Some (if operator = ''text'' then JObj [(''$search'', v2)] else v2)
           \<and> (\<forall>k. k \<noteq> token \<longrightarrow>
                 map_of (own (get_prop (filter' b2) f)) k =
                 map_of (own (get_prop (filter' b) f)) k)
           \<and> (\<forall>g. g \<noteq> f \<longrightarrow> get_prop (filter' b2) g = get_prop (filter' b) g)
           \<and> b2 = b\<lparr>filter' := filter' b2\<rparr>"
proof -
  obtain y1 where y1:
      "where' f operator v1 b = Inr (b\<lparr>filter' := set_prop (filter' b) f y1\<rparr>)"
      "is_own_object y1"
    using where_returns[OF assms(1) assms(2), of v1] by blast
  obtain y where y:
      "where' f operator v2 b = Inr (b\<lparr>filter' := set_prop (filter' b) f y\<rparr>)"
      "map_of (own y) = (map_of (own (get_prop (filter' b) f)))(token \<mapsto> refine operator v2)"
    using where_returns[OF assms(1) assms(2), of v2] by blast
  let ?b1 = "b\<lparr>filter' := set_prop (filter' b) f y1\<rparr>"
  let ?b2 = "b\<lparr>filter' := set_prop (filter' b) f y\<rparr>"
  have second: "where' f operator v2 ?b1 = Inr ?b2"
  proof (cases "truthy (get_prop (filter' b) f)")
    case False
    from where_fresh[OF assms(1) False, of v1] y1(1)
    have e1: "set_prop (filter' b) f y1 =
              set_prop (filter' b) f (JObj [(token, refine operator v1)])"
      by (auto dest: filter_update_inject)
    from where_fresh[OF assms(1) False, of v2] y(1)
    have e2: "set_prop (filter' b) f y =
              set_prop (filter' b) f (JObj [(token, refine operator v2)])"
      by (auto dest: filter_update_inject)
    have t: "truthy (get_prop (filter' (b\<lparr>filter' :=
               set_prop (filter' b) f (JObj [(token, refine operator v1)])\<rparr>)) f)"
      by (simp add: get_prop_set_prop_same)
    from where_supported[OF assms(1) t, of v2] show ?thesis
      by (simp add: e1 e2 get_prop_set_prop_same set_prop_twice)
  next
    case True
    from where_supported[OF assms(1) True, of v1] y1(1)
    obtain z1 where z1: "assign (get_prop (filter' b) f) token (refine operator v1) = Inr z1"
        "set_prop (filter' b) f y1 = set_prop (filter' b) f z1"
      by (auto split: sum.splits dest: filter_update_inject)
    from where_supported[OF assms(1) True, of v2] y(1)
    obtain z where z: "assign (get_prop (filter' b) f) token (refine operator v2) = Inr z"
        "set_prop (filter' b) f y = set_prop (filter' b) f z"
      by (auto split: sum.splits dest: filter_update_inject)
    have t: "truthy (get_prop (filter' (b\<lparr>filter' := set_prop (filter' b) f z1\<rparr>)) f)"
      using assign_truthy[OF z1(1)] by (simp add: get_prop_set_prop_same)
    from where_supported[OF assms(1) t, of v2] assign_twice[OF z1(1), of "refine operator v2"]
    show ?thesis
      by (simp add: z1(2) z(1) z(2) get_prop_set_prop_same set_prop_twice)
  qed
  have tok: "map_of (own (get_prop (filter' ?b2) f)) token = Some (refine operator v2)"
    by (simp add: get_prop_set_prop_same y(2))
  have others: "\<forall>k. k \<noteq> token \<longrightarrow>
      map_of (own (get_prop (filter' ?b2) f)) k = map_of (own (get_prop (filter' b) f)) k"
    by (simp add: get_prop_set_prop_same y(2))
  have fields: "\<forall>g. g \<noteq> f \<longrightarrow> get_prop (filter' ?b2) g = get_prop (filter' b) g"
    by (simp add: get_prop_set_prop_other)
  have rest: "?b2 = b\<lparr>filter' := filter' ?b2\<rparr>"
    by simp
  from y1(1) second y(1) tok others fields rest show ?thesis
    unfolding refine_shape by blast
qed

theorem where_same_operator_last_wins_witness:
  "map_of mongoOperatorMap ''lessThan'' = Some ''$lt''
   \<and> takes_operators (get_prop
        (filter' (new_QueryBuilder\<lparr>filter' := [(''age'', JObj [(''$gte'', JNum 18)])]\<rparr>)) ''age'')
   \<and> (\<exists>b1 b2.
         where' ''age'' ''lessThan'' (JNum 30)
           (new_QueryBuilder\<lparr>filter' := [(''age'', JObj [(''$gte'', JNum 18)])]\<rparr>) = Inr b1
         \<and> where' ''age'' ''lessThan'' (JNum 65) b1 = Inr b2
         \<and> map_of (own (get_prop (filter' b2) ''age'')) ''$lt'' = Some (JNum 65)
         \<and> map_of (own (get_prop (filter' b2) ''age'')) ''$gte'' = Some (JNum 18))
   \<and> and_then (where' ''age'' ''lessThan'' (JNum 30)
                  (new_QueryBuilder\<lparr>filter' := [(''age'', JObj [(''$gte'', JNum 18)])]\<rparr>))
               (where' ''age'' ''lessThan'' (JNum 65))
       = Inr (new_QueryBuilder\<lparr>filter' :=
                [(''age'', JObj [(''$gte'', JNum 18), (''$lt'', JNum 65)])]\<rparr>)"
proof -
  let ?b = "new_QueryBuilder\<lparr>filter' := [(''age'', JObj [(''$gte'', JNum 18)])]\<rparr>"
  have a: "map_of mongoOperatorMap ''lessThan'' = Some ''$lt''"
    by (simp add: mongoOperatorMap_def)
  have g: "get_prop (filter' ?b) ''age'' = JObj [(''$gte'', JNum 18)]"
    by (simp add: get_prop_def)
  have t: "takes_operators (get_prop (filter' ?b) ''age'')"
    unfolding g takes_operators_def by simp
  have n: "''$gte'' \<noteq> ''$lt''" by simp
  from where_same_operator_last_wins[OF a t, of "JNum 30" "JNum 65"]
  obtain b1 b2 where w:
      "where' ''age'' ''lessThan'' (JNum 30) ?b = Inr b1"
      "where' ''age'' ''lessThan'' (JNum 65) b1 = Inr b2"
      "map_of (own (get_prop (filter' b2) ''age'')) ''$lt'' = Some (JNum 65)"
      "\<forall>k. k \<noteq> ''$lt'' \<longrightarrow> map_of (own (get_prop (filter' b2) ''age'')) k =
             map_of (own (get_prop (filter' ?b) ''age'')) k"
    by auto
  from w(4) n have "map_of (own (get_prop (filter' b2) ''age'')) ''$gte'' = Some (JNum 18)"
    unfolding g by simp
  with w have ex: "\<exists>b1 b2.
         where' ''age'' ''lessThan'' (JNum 30) ?b = Inr b1
         \<and> where' ''age'' ''lessThan'' (JNum 65) b1 = Inr b2
         \<and> map_of (own (get_prop (filter' b2) ''age'')) ''$lt'' = Some (JNum 65)
         \<and> map_of (own (get_prop (filter' b2) ''age'')) ''$gte'' = Some (JNum 18)"
    by blast
  have ev: "and_then (where' ''age'' ''lessThan'' (JNum 30) ?b)
               (where' ''age'' ''lessThan'' (JNum 65))
       = Inr (new_QueryBuilder\<lparr>filter' :=
                [(''age'', JObj [(''$gte'', JNum 18), (''$lt'', JNum 65)])]\<rparr>)"
    by (simp add: and_then_def where'_def new_QueryBuilder_def mongoOperatorMap_def
          mongoOperator_key_def get_prop_def refine_def)
  from a t ex ev show ?thesis by blast
qed

section \<open>Claims about the options accumulator\<close>

text \<open>
  C5. For every page \<open>p\<close> and page size \<open>s\<close> that are integers of absolute value at most
  \<open>2 ^ 53\<close>, with \<open>p - 1\<close> and \<open>(p - 1) * s\<close> in that range too (so that the doubles of line
  162 compute them exactly) and with the product not a negative zero, and whatever skip and
  limit were set before, \<^verbatim>\<open>paginate(p, s)\<close> returns a builder whose options are skip
  \<open>(p - 1) * s\<close> and limit \<open>s\<close>, and that differs from the starting one in the page, the
  page size and the options only; a following \<^verbatim>\<open>limit(n)\<close> changes the limit to \<open>n\<close> and
  nothing else, so the skip derived by \<^verbatim>\<open>paginate\<close> stays.
\<close>

theorem paginate_then_limit:
  assumes "\<bar>p\<bar> \<le> 2 ^ 53" and "\<bar>s\<bar> \<le> 2 ^ 53"
    and "\<bar>p - 1\<bar> \<le> 2 ^ 53" and "\<bar>(p - 1) * s\<bar> \<le> 2 ^ 53"
    and "(p - 1) * s \<noteq> 0 \<or> (1 \<le> p \<and> 0 \<le> s)"
  shows "\<exists>b'. paginate p s b = Some b'
           \<and> options b' = \<lparr> limit = Some s, skip = Some ((p - 1) * s) \<rparr>
           \<and> b' = b\<lparr>page := p, pageSize := s, options := options b'\<rparr>
           \<and> options (limit' n b') = \<lparr> limit = Some n, skip = Some ((p - 1) * s) \<rparr>
           \<and> limit' n b' = b'\<lparr>options := (options b')\<lparr>limit := Some n\<rparr>\<rparr>"
proof -
  have one: "js_exact 1" by (simp add: js_exact_def)
  have d: "js_minus p 1 = Some (p - 1)"
    using assms(1,3) one by (simp add: js_minus_def js_exact_def)
  have z: "\<not> ((p - 1) * s = 0 \<and> (p - 1 < 0 \<or> s < 0))"
    using assms(5) by auto
  have m: "js_times (p - 1) s = Some ((p - 1) * s)"
    using assms(2,3,4) z unfolding js_times_def js_exact_def by simp
  show ?thesis
    by (simp add: paginate_def d m limit'_def)
qed

theorem paginate_then_limit_witness:
  "\<bar>3::int\<bar> \<le> 2 ^ 53 \<and> \<bar>10::int\<bar> \<le> 2 ^ 53 \<and> \<bar>(3::int) - 1\<bar> \<le> 2 ^ 53
   \<and> \<bar>((3::int) - 1) * 10\<bar> \<le> 2 ^ 53
   \<and> (\<exists>b'. paginate 3 10 (skip' 7 (limit' 99 new_QueryBuilder)) = Some b'
         \<and> options b' = \<lparr> limit = Some 10, skip = Some 20 \<rparr>
         \<and> options (limit' 5 b') = \<lparr> limit = Some 5, skip = Some 20 \<rparr>)"
proof -
  have a: "\<bar>3::int\<bar> \<le> 2 ^ 53" by simp
  have b: "\<bar>10::int\<bar> \<le> 2 ^ 53" by simp
  have c: "\<bar>(3::int) - 1\<bar> \<le> 2 ^ 53" by simp
  have d: "\<bar>((3::int) - 1) * 10\<bar> \<le> 2 ^ 53" by simp
  have e: "((3::int) - 1) * 10 \<noteq> 0 \<or> (1 \<le> (3::int) \<and> 0 \<le> (10::int))" by simp
  from paginate_then_limit[OF a b c d e, of "skip' 7 (limit' 99 new_QueryBuilder)" 5]
  have "\<exists>b'. paginate 3 10 (skip' 7 (limit' 99 new_QueryBuilder)) = Some b'
         \<and> options b' = \<lparr> limit = Some 10, skip = Some 20 \<rparr>
         \<and> options (limit' 5 b') = \<lparr> limit = Some 5, skip = Some 20 \<rparr>"
    by auto
  with a b c d show ?thesis by blast
qed

section \<open>Claims about the execution dispatcher\<close>

text \<open>
  C4. When the pipeline has at least one stage, \<^verbatim>\<open>execute()\<close> asks the collection for the
  aggregation of exactly that pipeline under the builder's session, and its promise is the
  promise of that aggregation, so all its documents are returned. The outcome is the same
  whatever \<^verbatim>\<open>find\<close> of the model would do, and whatever the filter, the options, the
  populated fields, the sort, the projection and the page are. The pipeline is the sequence
  of the stages in the order in which \<^verbatim>\<open>aggregate\<close> received them, and \<^verbatim>\<open>aggregate\<close> leaves
  the session alone.
\<close>

theorem execute_runs_only_the_pipeline:
  assumes "length (aggregationPipeline b) > 0"
    and "getCollection m = Returns c"
    and "aggregate_toArray c (aggregationPipeline b) (session b) = Returns p"
  shows "execute m b = p
         \<and> execute (m\<lparr>find' := fnd\<rparr>) b = p
         \<and> execute m (b\<lparr>filter' := flt, options := opts, populatedFields := pf,
                         sort' := srt, projection := prj, page := pg, pageSize := pgs\<rparr>) = p
         \<and> aggregationPipeline (fold aggregate stages b) = aggregationPipeline b @ stages
         \<and> session (fold aggregate stages b) = session b"
  using assms
  by (simp add: execute_def try_return_def chain_def aggregationPipeline_fold session_fold)

theorem execute_runs_only_the_pipeline_witness:
  "length (aggregationPipeline
      (fold aggregate [JStr ''unwind'', JStr ''group''] (limit' 5 new_QueryBuilder))) > 0
   \<and> getCollection echo_model = Returns echo_collection
   \<and> aggregate_toArray echo_collection
        (aggregationPipeline
           (fold aggregate [JStr ''unwind'', JStr ''group''] (limit' 5 new_QueryBuilder)))
        (session (fold aggregate [JStr ''unwind'', JStr ''group''] (limit' 5 new_QueryBuilder)))
       = Returns (Fulfilled [[(''stage'', JStr ''unwind'')], [(''stage'', JStr ''group'')]])
   \<and> execute echo_model
        (fold aggregate [JStr ''unwind'', JStr ''group''] (limit' 5 new_QueryBuilder))
       = Fulfilled [[(''stage'', JStr ''unwind'')], [(''stage'', JStr ''group'')]]"
proof -
  let ?b = "fold aggregate [JStr ''unwind'', JStr ''group''] (limit' 5 new_QueryBuilder)"
  have pl: "aggregationPipeline ?b = [JStr ''unwind'', JStr ''group'']"
    by (simp add: aggregate_def limit'_def new_QueryBuilder_def)
  have l: "length (aggregationPipeline ?b) > 0"
    unfolding pl by simp
  have g: "getCollection echo_model = Returns echo_collection"
    by (simp add: echo_model_def)
  have a: "aggregate_toArray echo_collection (aggregationPipeline ?b) (session ?b)
           = Returns (Fulfilled [[(''stage'', JStr ''unwind'')], [(''stage'', JStr ''group'')]])"
    unfolding pl by (simp add: echo_collection_def)
  from execute_runs_only_the_pipeline[OF l g a] l g a show ?thesis by blast
qed

text \<open>
  C6. A failure of the collaborator is not always wrapped. When every operation of the
  driver returns a promise that is rejected with an error \<open>e\<close>, which is how a driver
  reports a failed operation, \<^verbatim>\<open>count()\<close>, \<^verbatim>\<open>explain()\<close> and \<^verbatim>\<open>execute()\<close> are rejected
  with \<open>e\<close> itself, for every builder (so on both branches of \<^verbatim>\<open>execute\<close>): the promise is
  returned from the \<^verbatim>\<open>try\<close> block without \<^verbatim>\<open>await\<close>, and the \<^verbatim>\<open>catch\<close> clause that builds the
  \<^verbatim>\<open>MongridError\<close> never runs.
\<close>

theorem collaborator_rejection_not_wrapped:
  "count (failing_model e) b = Rejected e
   \<and> explain (failing_model e) verbosity b = Rejected e
   \<and> execute (failing_model e) b = Rejected e
   \<and> count (failing_model (Error ''connection closed'')) new_QueryBuilder
       \<noteq> Rejected (MongridError (''Count failed: connection closed'') COUNT_ERROR
                      [D_filter (filter' new_QueryBuilder)])"
  by (simp add: count_def explain_def execute_def failing_model_def stub_model_def
        stub_collection_def try_return_def chain_def)

text \<open>
  C7. When the query behind \<^verbatim>\<open>executeOne()\<close> fails with an error \<open>e\<close>, the error
  \<^verbatim>\<open>executeOne()\<close> raises is a \<^verbatim>\<open>MongridError\<close> of the query-execution kind whose details
  are the filter and the options only: the populated fields are not among them, whatever
  the builder has populated.
\<close>

theorem executeOne_error_lacks_populatedFields:
  "executeOne (failing_model e) b =
     Rejected (MongridError (''Query execution failed: '' @ message e) QUERY_EXECUTION_ERROR
                 [D_filter (filter' b), D_options (options b)])
   \<and> executeOne (failing_model (Error ''connection closed''))
        (populate [''posts''] new_QueryBuilder) =
     Rejected (MongridError ''Query execution failed: connection closed''
                 QUERY_EXECUTION_ERROR
                 [D_filter [], D_options \<lparr> limit = None, skip = None \<rparr>])"
  by (simp add: executeOne_def try_await_def execute_def failing_model_def stub_model_def
        stub_collection_def try_return_def chain_def populate_def new_QueryBuilder_def)

text \<open>
  C8. Whenever \<^verbatim>\<open>execute()\<close> is fulfilled with the empty list, \<^verbatim>\<open>executeOne()\<close> is fulfilled
  with \<^verbatim>\<open>null\<close>, not rejected; whenever \<^verbatim>\<open>execute()\<close> is fulfilled with a non-empty list of
  documents, \<^verbatim>\<open>executeOne()\<close> is fulfilled with the first of them.
\<close>

theorem executeOne_first_or_null:
  "(execute m b = Fulfilled [] \<longrightarrow> executeOne m b = Fulfilled JNull)
   \<and> (execute m b = Fulfilled (d # ds) \<longrightarrow> executeOne m b = Fulfilled (JObj d))"
  by (simp add: executeOne_def try_await_def index0_def js_or_def)

theorem executeOne_first_or_null_witness:
  "execute (stub_model echo_collection (Fulfilled [])) new_QueryBuilder = Fulfilled []
   \<and> executeOne (stub_model echo_collection (Fulfilled [])) new_QueryBuilder = Fulfilled JNull
   \<and> execute (stub_model echo_collection
        (Fulfilled [[(''name'', JStr ''ann'')], [(''name'', JStr ''bob'')]])) new_QueryBuilder
       = Fulfilled [[(''name'', JStr ''ann'')], [(''name'', JStr ''bob'')]]
   \<and> executeOne (stub_model echo_collection
        (Fulfilled [[(''name'', JStr ''ann'')], [(''name'', JStr ''bob'')]])) new_QueryBuilder
       = Fulfilled (JObj [(''name'', JStr ''ann'')])"
proof -
  have e: "execute (stub_model echo_collection (Fulfilled docs)) new_QueryBuilder
           = Fulfilled docs" for docs
    by (simp add: execute_def stub_model_def new_QueryBuilder_def try_return_def)
  from executeOne_first_or_null
         [of "stub_model echo_collection (Fulfilled [])" new_QueryBuilder]
       executeOne_first_or_null
         [of "stub_model echo_collection
                (Fulfilled [[(''name'', JStr ''ann'')], [(''name'', JStr ''bob'')]])"
             new_QueryBuilder "[(''name'', JStr ''ann'')]" "[[(''name'', JStr ''bob'')]]"]
  show ?thesis by (simp add: e)
qed

end
